theory Spec2Isabelle
  imports Complex_Main
begin

section \<open>JavaScript values\<close>

text \<open>
  \<^verbatim>\<open>src/src/index.js\<close> holds two listings of the module: the first (lines 1--120)
  takes Express request objects and has a \<^verbatim>\<open>useHttp\<close> option, the second (lines
  121--213) takes the user name, the password and the token directly. Both are embedded
  here; the definitions of the second listing carry the suffix \<open>_v2\<close>.

  The options and the request fields are untyped JavaScript values. A number is an IEEE
  double: not-a-number, an infinity or a finite value, which is a rational number. The
  embedding lets every rational stand for a finite number, which is more than the doubles.
  \<open>JObj\<close> is any other value (an object, an array, a function): it is truthy, and the
  code only ever tests its truthiness and its type.
\<close>

datatype js_number = NaN | PosInfinity | NegInfinity | Fin rat

datatype js_value =
    JUndefined
  | JNull
  | JBool bool
  | JNum js_number
  | JStr string
  | JObj nat

text \<open>The truthiness test of \<^verbatim>\<open>if (v)\<close>, \<^verbatim>\<open>!v\<close>, \<^verbatim>\<open>v && w\<close> and \<^verbatim>\<open>v || w\<close>.\<close>

fun truthy :: "js_value \<Rightarrow> bool" where
  "truthy JUndefined = False"
| "truthy JNull = False"
| "truthy (JBool b) = b"
| "truthy (JNum NaN) = False"
| "truthy (JNum PosInfinity) = True"
| "truthy (JNum NegInfinity) = True"
| "truthy (JNum (Fin q)) = (q \<noteq> 0)"
| "truthy (JStr s) = (s \<noteq> [])"
| "truthy (JObj _) = True"

text \<open>\<^verbatim>\<open>a || b\<close> is \<^verbatim>\<open>a\<close> when \<^verbatim>\<open>a\<close> is truthy and \<^verbatim>\<open>b\<close> otherwise.\<close>

definition js_or :: "js_value \<Rightarrow> js_value \<Rightarrow> js_value" where
  "js_or a b = (if truthy a then a else b)"

text \<open>\<^verbatim>\<open>typeof v === 'boolean'\<close>.\<close>

fun is_boolean :: "js_value \<Rightarrow> bool" where
  "is_boolean (JBool _) = True"
| "is_boolean _ = False"

text \<open>\<^verbatim>\<open>Number.isInteger(v)\<close>: a finite number without a fractional part.\<close>

fun Number_isInteger :: "js_value \<Rightarrow> bool" where
  "Number_isInteger (JNum (Fin q)) = (of_int \<lfloor>q\<rfloor> = q)"
| "Number_isInteger _ = False"

text \<open>
  \<^verbatim>\<open>v < k\<close> for a number \<^verbatim>\<open>v\<close> and a finite constant \<^verbatim>\<open>k\<close>. Both listings evaluate
  the comparison only to the right of \<^verbatim>\<open>!Number.isInteger(v) ||\<close>, so only on finite
  numbers; the conversion JavaScript applies to other operands is never reached and the
  last equation stands for it.
\<close>

fun js_less :: "js_value \<Rightarrow> rat \<Rightarrow> bool" where
  "js_less (JNum (Fin q)) k = (q < k)"
| "js_less (JNum NegInfinity) k = True"
| "js_less _ k = False"

text \<open>
  An error object: \<^verbatim>\<open>new Error(msg)\<close> has the name \<^verbatim>\<open>Error\<close>, the message and no
  \<^verbatim>\<open>code\<close> property; \<^verbatim>\<open>err.code = 401\<close> sets the property on whatever error it is
  given.
\<close>

record js_error =
  e_name :: string
  e_message :: string
  e_code :: js_value

definition new_Error :: "string \<Rightarrow> js_error" where
  "new_Error msg = \<lparr>e_name = ''Error'', e_message = msg, e_code = JUndefined\<rparr>"

definition set_code_401 :: "js_error \<Rightarrow> js_error" where
  "set_code_401 err = err\<lparr>e_code := JNum (Fin 401)\<rparr>"

section \<open>Configuration\<close>

text \<open>
  The module-level variables of the first listing (lines 5--8). Before the first call of
  \<^verbatim>\<open>auth\<close> each of them is \<^verbatim>\<open>undefined\<close>.
\<close>

record module_state =
  m_useHttp :: js_value
  m_tokenExpirationMinutes :: js_value
  m_secret :: js_value
  m_userStoreFilePath :: js_value

definition initial_state :: module_state where
  "initial_state =
     \<lparr>m_useHttp = JUndefined, m_tokenExpirationMinutes = JUndefined,
      m_secret = JUndefined, m_userStoreFilePath = JUndefined\<rparr>"

text \<open>The module-level variables of the second listing (lines 125--127).\<close>

record module_state_v2 =
  m2_tokenExpirationMinutes :: js_value
  m2_secret :: js_value
  m2_userStoreFilePath :: js_value

definition initial_state_v2 :: module_state_v2 where
  "initial_state_v2 =
     \<lparr>m2_tokenExpirationMinutes = JUndefined, m2_secret = JUndefined,
      m2_userStoreFilePath = JUndefined\<rparr>"

text \<open>
  The \<^verbatim>\<open>options\<close> argument: a property that is absent reads as \<^verbatim>\<open>undefined\<close>. The
  parameter has the default \<^verbatim>\<open>{}\<close>, taken when the argument is left out (\<open>None\<close>).
\<close>

record options =
  o_useHttp :: js_value
  o_tokenExpirationMinutes :: js_value

definition default_options :: options where
  "default_options = \<lparr>o_useHttp = JUndefined, o_tokenExpirationMinutes = JUndefined\<rparr>"

definition options_or_default :: "options option \<Rightarrow> options" where
  "options_or_default opts = (case opts of None \<Rightarrow> default_options | Some opt \<Rightarrow> opt)"

definition TOKEN_EXPIRATION_MINUTES :: js_value where
  "TOKEN_EXPIRATION_MINUTES = JNum (Fin 60)"

text \<open>
  The object \<^verbatim>\<open>auth\<close> returns: the tag \<^verbatim>\<open>type: 'auth'\<close> and the three functions,
  which are the functions of this theory.
\<close>

record handle =
  h_type :: string

definition auth_handle :: handle where
  "auth_handle = \<lparr>h_type = ''auth''\<rparr>"

definition useHttp_error :: js_error where
  "useHttp_error = new_Error ''\"useHttp\" must be a boolean''"

definition tokenExpirationMinutes_error :: js_error where
  "tokenExpirationMinutes_error =
     new_Error ''\"tokenExpirationMinutes\" must be an integer >= 5''"

text \<open>
  Both listings begin with the call \<^verbatim>\<open>fs.stat(userStoreFilePath, callback)\<close> (lines
  20--22 and 138--140). Node checks the path argument at once: for a value it does not
  take as a path (\<^verbatim>\<open>undefined\<close>, a number, ...) the call throws a \<^verbatim>\<open>TypeError\<close>, and
  \<^verbatim>\<open>auth\<close> ends there, before anything is assigned. \<^verbatim>\<open>fs\<close> is not part of
  \<^verbatim>\<open>index.js\<close>: what the call throws is the parameter \<open>fs_stat\<close>, \<open>None\<close> when the
  call returns. The callback runs after \<^verbatim>\<open>auth\<close> has returned; it assigns nothing and
  throws outside of every caller, and so does not take part in the result.
\<close>

type_synonym stat_fn = "js_value \<Rightarrow> js_error option"

text \<open>
  \<^verbatim>\<open>auth\<close> of the first listing (lines 18--42). The assignments happen in the source's
  order, so a call that throws has already overwritten the variables assigned before the
  \<^verbatim>\<open>throw\<close>: the state is returned in both cases, \<open>Inl\<close> is the thrown error.
\<close>

definition auth ::
  "stat_fn \<Rightarrow> js_value \<Rightarrow> js_value \<Rightarrow> options option \<Rightarrow> module_state
     \<Rightarrow> module_state \<times> (js_error + handle)"
where
  "auth fs_stat secret userStoreFilePath opts g =
     (case fs_stat userStoreFilePath of
        Some err \<Rightarrow> (g, Inl err)
      | None \<Rightarrow>
          (let opt = options_or_default opts;
               g1 = g\<lparr>m_secret := secret, m_userStoreFilePath := userStoreFilePath\<rparr>
           in if truthy (o_useHttp opt) \<and> \<not> is_boolean (o_useHttp opt)
              then (g1, Inl useHttp_error)
              else
                let g2 = g1\<lparr>m_useHttp := js_or (o_useHttp opt) (JBool False)\<rparr>
                in if truthy (o_tokenExpirationMinutes opt)
                      \<and> (\<not> Number_isInteger (o_tokenExpirationMinutes opt)
                           \<or> js_less (o_tokenExpirationMinutes opt) 5)
                   then (g2, Inl tokenExpirationMinutes_error)
                   else
                     (g2\<lparr>m_tokenExpirationMinutes :=
                            js_or (o_tokenExpirationMinutes opt) TOKEN_EXPIRATION_MINUTES\<rparr>,
                      Inr auth_handle)))"

text \<open>
  \<^verbatim>\<open>auth\<close> of the second listing (lines 136--155): the default is applied first and
  the check reads the variable.
\<close>

definition auth_v2 ::
  "stat_fn \<Rightarrow> js_value \<Rightarrow> js_value \<Rightarrow> options option \<Rightarrow> module_state_v2
     \<Rightarrow> module_state_v2 \<times> (js_error + handle)"
where
  "auth_v2 fs_stat secret userStoreFilePath opts g =
     (case fs_stat userStoreFilePath of
        Some err \<Rightarrow> (g, Inl err)
      | None \<Rightarrow>
          (let opt = options_or_default opts;
               g1 = g\<lparr>m2_secret := secret, m2_userStoreFilePath := userStoreFilePath,
                      m2_tokenExpirationMinutes :=
                        js_or (o_tokenExpirationMinutes opt) TOKEN_EXPIRATION_MINUTES\<rparr>
           in if \<not> Number_isInteger (m2_tokenExpirationMinutes g1)
                 \<or> js_less (m2_tokenExpirationMinutes g1) 5
              then (g1, Inl tokenExpirationMinutes_error)
              else (g1, Inr auth_handle)))"

text \<open>
  The three functions of the handle work on the same module-level variables as
  \<^verbatim>\<open>auth\<close>. Like \<^verbatim>\<open>auth\<close> they are embedded as functions from the state to the state
  after the call and the result; where the source reads a variable the embedding reads
  the state, and the state a function returns is the one its statements leave.

  \<^verbatim>\<open>authenticationSpecification\<close> (lines 48--52) and, for the second listing,
  \<^verbatim>\<open>getAuthenticationSpecification\<close> (lines 161--168), which reads no variable.
\<close>

record auth_spec =
  s_useHttp :: js_value

definition authenticationSpecification :: "module_state \<Rightarrow> module_state \<times> auth_spec" where
  "authenticationSpecification g = (g, \<lparr>s_useHttp = m_useHttp g\<rparr>)"

record auth_spec_v2 =
  s_provider :: js_value
  s_secured :: bool

definition getAuthenticationSpecification :: "js_value \<Rightarrow> auth_spec_v2" where
  "getAuthenticationSpecification providerNamespace =
     \<lparr>s_provider = providerNamespace, s_secured = True\<rparr>"

section \<open>Promises\<close>

text \<open>
  A promise is settled once: the first call of \<^verbatim>\<open>resolve\<close> or \<^verbatim>\<open>reject\<close> fixes its
  state and every later call is ignored. Neither call ends the function that makes it,
  so the statements after it still run.
\<close>

datatype 'a promise = Pending | Resolved 'a | Rejected js_error

definition resolve :: "'a \<Rightarrow> 'a promise \<Rightarrow> 'a promise" where
  "resolve v p = (case p of Pending \<Rightarrow> Resolved v | _ \<Rightarrow> p)"

definition reject :: "js_error \<Rightarrow> 'a promise \<Rightarrow> 'a promise" where
  "reject err p = (case p of Pending \<Rightarrow> Rejected err | _ \<Rightarrow> p)"

section \<open>Collaborators\<close>

text \<open>
  \<^verbatim>\<open>validateCredentials\<close> (\<^verbatim>\<open>./validate-credentials\<close>) and the \<^verbatim>\<open>jsonwebtoken\<close>
  functions \<^verbatim>\<open>jwt.sign\<close> and \<^verbatim>\<open>jwt.verify\<close> are not part of \<^verbatim>\<open>index.js\<close>; the
  functions below take them as parameters. Each gives \<open>Inl\<close> of the error it fails with
  (a rejected promise, a thrown exception, the callback's first argument) or \<open>Inr\<close> of
  its result. \<^verbatim>\<open>jwt.verify\<close> compares the expiry with the clock, so it also takes the
  current time in milliseconds.
\<close>

record jwt_payload =
  jwt_exp :: int
  jwt_sub :: js_value

type_synonym validate_fn = "js_value \<Rightarrow> js_value \<Rightarrow> js_value \<Rightarrow> js_error + js_value"
type_synonym sign_fn = "jwt_payload \<Rightarrow> js_value \<Rightarrow> js_error + string"
type_synonym 'd verify_fn = "js_value \<Rightarrow> js_value \<Rightarrow> int \<Rightarrow> js_error + 'd"

section \<open>Times\<close>

text \<open>
  \<^verbatim>\<open>Date.now()\<close> is an integer number of milliseconds. A sum or a product of doubles
  is exact as long as the operands and the result are integers of magnitude at most
  \<open>2 ^ 53\<close>. The embedding computes in that range and gives \<open>None\<close> outside of it, as
  it does for a stored lifetime that is not an integer number: there it does not
  determine the value JavaScript computes. For an integer \<open>n\<close> of that range the double
  nearest to \<open>n / 1000\<close> is less than \<open>1 / 1000\<close> away from it and so never across an
  integer: \<^verbatim>\<open>Math.floor(n / 1000)\<close> is the floor of the exact quotient.
\<close>

definition exact :: "int \<Rightarrow> int option" where
  "exact n = (if \<bar>n\<bar> \<le> 2 ^ 53 then Some n else None)"

fun safe_integer :: "js_value \<Rightarrow> int option" where
  "safe_integer (JNum (Fin q)) = (if of_int \<lfloor>q\<rfloor> = q then exact \<lfloor>q\<rfloor> else None)"
| "safe_integer _ = None"

text \<open>\<^verbatim>\<open>Date.now() + (_tokenExpirationMinutes * 60 * 1000)\<close> (lines 78 and 187).\<close>

definition expires_at :: "int \<Rightarrow> js_value \<Rightarrow> int option" where
  "expires_at now tokenExpirationMinutes =
     Option.bind (safe_integer tokenExpirationMinutes) (\<lambda>m.
     Option.bind (exact (m * 60)) (\<lambda>a.
     Option.bind (exact (a * 1000)) (\<lambda>b.
     Option.bind (exact now) (\<lambda>n. exact (n + b)))))"

section \<open>authenticate\<close>

record token_response =
  r_token :: string
  r_expires :: int

definition invalid_credentials :: js_error where
  "invalid_credentials = set_code_401 (new_Error ''Invalid credentials.'')"

text \<open>
  The handler given to \<^verbatim>\<open>.then\<close> (lines 70--84, and 180--193 of the second listing,
  which is the same code), run on the promise \<open>p\<close> of \<^verbatim>\<open>authenticate\<close> with the
  collaborator's answer \<open>valid\<close>. After \<^verbatim>\<open>reject(err)\<close> the handler goes on: it
  computes the expiry, signs and calls \<^verbatim>\<open>resolve(json)\<close>. An exception of
  \<^verbatim>\<open>jwt.sign\<close> leaves the handler and reaches \<^verbatim>\<open>.catch\<close>, which calls
  \<^verbatim>\<open>reject(err)\<close>. \<^verbatim>\<open>Math.floor(expires / 1000)\<close> is the floor of the quotient, which
  is \<open>div\<close> on the integers. Where \<open>expires_at\<close> does not determine the expiry, the
  arguments of \<^verbatim>\<open>jwt.sign\<close> and of \<^verbatim>\<open>resolve\<close> are not determined either and the
  result is \<open>None\<close>, unless the promise was settled before: then no later call changes
  it.
\<close>

definition authenticate_then ::
  "sign_fn \<Rightarrow> js_value \<Rightarrow> js_value \<Rightarrow> int \<Rightarrow> js_value \<Rightarrow> js_value
     \<Rightarrow> token_response promise \<Rightarrow> token_response promise option"
where
  "authenticate_then jwt_sign tokenExpirationMinutes secret now username valid p =
     (let p1 = (if \<not> truthy valid then reject invalid_credentials p else p)
      in case expires_at now tokenExpirationMinutes of
           None \<Rightarrow> (case p1 of Pending \<Rightarrow> None | _ \<Rightarrow> Some p1)
         | Some expires \<Rightarrow>
             (case jwt_sign \<lparr>jwt_exp = expires div 1000, jwt_sub = username\<rparr> secret of
                Inl err \<Rightarrow> Some (reject err p1)
              | Inr tok \<Rightarrow> Some (resolve \<lparr>r_token = tok, r_expires = expires\<rparr> p1)))"

text \<open>
  An Express request, as far as the first listing reads it. \<open>None\<close> for the request, its
  \<^verbatim>\<open>query\<close> or its \<^verbatim>\<open>headers\<close> is a falsy value, which the guards
  \<^verbatim>\<open>req && req.query && ...\<close> skip. \<open>None\<close> for the \<^verbatim>\<open>body\<close> is \<^verbatim>\<open>undefined\<close> or
  \<^verbatim>\<open>null\<close>, on which reading a property throws a \<^verbatim>\<open>TypeError\<close> (whose message
  depends on the engine). A property that is absent reads as \<^verbatim>\<open>undefined\<close>.
\<close>

record req_query =
  q_username :: js_value
  q_password :: js_value
  q_token :: js_value

record req_body =
  b_username :: js_value
  b_password :: js_value

record req_headers =
  h_authorization :: js_value

record request =
  r_query :: "req_query option"
  r_body :: "req_body option"
  r_headers :: "req_headers option"

definition type_error :: js_error where
  "type_error =
     \<lparr>e_name = ''TypeError'', e_message = ''Cannot read properties of undefined'',
      e_code = JUndefined\<rparr>"

definition query_field :: "(req_query \<Rightarrow> js_value) \<Rightarrow> request option \<Rightarrow> js_value" where
  "query_field f req =
     (case req of None \<Rightarrow> JUndefined
      | Some r \<Rightarrow> (case r_query r of None \<Rightarrow> JUndefined | Some q \<Rightarrow> f q))"

definition header_field :: "(req_headers \<Rightarrow> js_value) \<Rightarrow> request option \<Rightarrow> js_value" where
  "header_field f req =
     (case req of None \<Rightarrow> JUndefined
      | Some r \<Rightarrow> (case r_headers r of None \<Rightarrow> JUndefined | Some h \<Rightarrow> f h))"

definition body_field :: "(req_body \<Rightarrow> js_value) \<Rightarrow> request option \<Rightarrow> js_error + js_value" where
  "body_field f req =
     (case req of None \<Rightarrow> Inl type_error
      | Some r \<Rightarrow> (case r_body r of None \<Rightarrow> Inl type_error | Some b \<Rightarrow> Inr (f b)))"

text \<open>
  Lines 63--64 and 66--67 for one of the two credentials: the query value when it is
  truthy, else the body value when that is truthy, else \<^verbatim>\<open>undefined\<close>. The body is
  read only when the query gave nothing.
\<close>

definition credential ::
  "(req_query \<Rightarrow> js_value) \<Rightarrow> (req_body \<Rightarrow> js_value) \<Rightarrow> request option \<Rightarrow> js_error + js_value"
where
  "credential qf bf req =
     (let v = (if truthy (query_field qf req) then query_field qf req else JUndefined)
      in if \<not> truthy v
         then (case body_field bf req of
                 Inl err \<Rightarrow> Inl err
               | Inr w \<Rightarrow> Inr (if truthy w then w else v))
         else Inr v)"

text \<open>Lines 61--67: both query reads come first, then the two body reads in order.\<close>

definition request_credentials :: "request option \<Rightarrow> js_error + (js_value \<times> js_value)" where
  "request_credentials req =
     (case credential q_username b_username req of
        Inl err \<Rightarrow> Inl err
      | Inr username \<Rightarrow>
          (case credential q_password b_password req of
             Inl err \<Rightarrow> Inl err
           | Inr password \<Rightarrow> Inr (username, password)))"

text \<open>
  \<^verbatim>\<open>authenticate\<close> of the first listing (lines 59--89), from the state to the state
  after the call and the promise. An exception in the executor rejects the promise; a
  failure of the collaborator reaches \<^verbatim>\<open>.catch\<close>. The executor reads
  \<^verbatim>\<open>_userStoreFilePath\<close>, the handler reads \<^verbatim>\<open>_tokenExpirationMinutes\<close> and
  \<^verbatim>\<open>_secret\<close>; nothing is assigned on any path.
\<close>

definition authenticate ::
  "validate_fn \<Rightarrow> sign_fn \<Rightarrow> module_state \<Rightarrow> int \<Rightarrow> request option
     \<Rightarrow> module_state \<times> token_response promise option"
where
  "authenticate validateCredentials jwt_sign g now req =
     (case request_credentials req of
        Inl err \<Rightarrow> (g, Some (reject err Pending))
      | Inr (username, password) \<Rightarrow>
          (case validateCredentials username password (m_userStoreFilePath g) of
             Inl err \<Rightarrow> (g, Some (reject err Pending))
           | Inr valid \<Rightarrow>
               (g, authenticate_then jwt_sign (m_tokenExpirationMinutes g) (m_secret g) now
                     username valid Pending)))"

text \<open>\<^verbatim>\<open>authenticate\<close> of the second listing (lines 176--198).\<close>

definition authenticate_v2 ::
  "validate_fn \<Rightarrow> sign_fn \<Rightarrow> module_state_v2 \<Rightarrow> int \<Rightarrow> js_value \<Rightarrow> js_value
     \<Rightarrow> module_state_v2 \<times> token_response promise option"
where
  "authenticate_v2 validateCredentials jwt_sign g now username password =
     (case validateCredentials username password (m2_userStoreFilePath g) of
        Inl err \<Rightarrow> (g, Some (reject err Pending))
      | Inr valid \<Rightarrow>
          (g, authenticate_then jwt_sign (m2_tokenExpirationMinutes g) (m2_secret g) now
                username valid Pending))"

section \<open>authorize\<close>

definition no_token_error :: js_error where
  "no_token_error = set_code_401 (new_Error ''No authorization token.'')"

text \<open>
  Lines 99--101: the query parameter is read first and the \<^verbatim>\<open>authorization\<close> header
  second; each assigns \<^verbatim>\<open>token\<close> when it is truthy.
\<close>

definition request_token :: "request option \<Rightarrow> js_value" where
  "request_token req =
     (let token0 = JUndefined;
          token1 = (if truthy (query_field q_token req) then query_field q_token req
                    else token0);
          token2 = (if truthy (header_field h_authorization req)
                    then header_field h_authorization req else token1)
      in token2)"

text \<open>
  The callback given to \<^verbatim>\<open>jwt.verify\<close> (lines 108--116 and 203--210). On an error it
  sets the code, rejects and goes on to \<^verbatim>\<open>resolve(decoded)\<close> with \<^verbatim>\<open>decoded\<close>
  undefined, which is \<open>None\<close> here.
\<close>

definition authorize_callback :: "js_error + 'd \<Rightarrow> 'd option promise \<Rightarrow> 'd option promise" where
  "authorize_callback outcome p =
     (case outcome of
        Inl err \<Rightarrow> resolve None (reject (set_code_401 err) p)
      | Inr decoded \<Rightarrow> resolve (Some decoded) p)"

text \<open>
  \<^verbatim>\<open>authorize\<close> of the first listing (lines 96--118), from the state to the state
  after the call and the promise: without a token the promise is rejected and
  \<^verbatim>\<open>jwt.verify\<close> is called all the same. The only variable read is \<^verbatim>\<open>_secret\<close>;
  nothing is assigned.
\<close>

definition authorize ::
  "'d verify_fn \<Rightarrow> module_state \<Rightarrow> int \<Rightarrow> request option \<Rightarrow> module_state \<times> 'd option promise"
where
  "authorize jwt_verify g now req =
     (let token = request_token req;
          p1 = (if \<not> truthy token then reject no_token_error Pending else Pending)
      in (g, authorize_callback (jwt_verify token (m_secret g) now) p1))"

text \<open>\<^verbatim>\<open>authorize\<close> of the second listing (lines 200--212).\<close>

definition authorize_v2 ::
  "'d verify_fn \<Rightarrow> module_state_v2 \<Rightarrow> int \<Rightarrow> js_value \<Rightarrow> module_state_v2 \<times> 'd option promise"
where
  "authorize_v2 jwt_verify g now token =
     (g, authorize_callback (jwt_verify token (m2_secret g) now) Pending)"

section \<open>Calls after the configuration\<close>

text \<open>
  The three functions of the handle, run one after the other on the module's variables:
  each call starts in the state the call before it has left. Each call carries the
  clock's reading it sees, and is taken as one step together with its handlers, which run
  later than the call itself.
\<close>

datatype call =
    CallSpecification
  | CallAuthenticate "request option" int
  | CallAuthorize "request option" int

datatype 'd response =
    SpecificationResult auth_spec
  | AuthenticateResult "token_response promise option"
  | AuthorizeResult "'d option promise"

fun perform ::
  "validate_fn \<Rightarrow> sign_fn \<Rightarrow> 'd verify_fn \<Rightarrow> call \<Rightarrow> module_state \<Rightarrow> module_state \<times> 'd response"
where
  "perform V S J CallSpecification g =
     (let (g1, r) = authenticationSpecification g in (g1, SpecificationResult r))"
| "perform V S J (CallAuthenticate req now) g =
     (let (g1, r) = authenticate V S g now req in (g1, AuthenticateResult r))"
| "perform V S J (CallAuthorize req now) g =
     (let (g1, r) = authorize J g now req in (g1, AuthorizeResult r))"

fun run ::
  "validate_fn \<Rightarrow> sign_fn \<Rightarrow> 'd verify_fn \<Rightarrow> call list \<Rightarrow> module_state
     \<Rightarrow> module_state \<times> 'd response list"
where
  "run V S J [] g = (g, [])"
| "run V S J (c # cs) g =
     (let (g1, r) = perform V S J c g;
          (g2, rs) = run V S J cs g1
      in (g2, r # rs))"

section \<open>What the token library is assumed to do\<close>

text \<open>
  The module relies on \<^verbatim>\<open>jsonwebtoken\<close> for the tokens, and the specification gives
  the contract it expects of it: \<^verbatim>\<open>sign(claims, secret)\<close> gives a token string,
  \<^verbatim>\<open>verify(token, secret)\<close> gives the claims or fails on an invalid signature or
  expiry. Two parts of that contract are hypotheses of the theorems on tokens; they are
  predicates on the functions passed in, not definitions of them. The library compares
  the expiry in whole seconds: a token has expired once the second of the clock has
  reached its \<^verbatim>\<open>exp\<close>. The first part: a token that \<^verbatim>\<open>jwt.sign\<close> returned is a
  non-empty string, and \<^verbatim>\<open>jwt.verify\<close> with the same key, at a clock reading whose
  second lies before the payload's \<^verbatim>\<open>exp\<close>, returns claims with the payload's subject
  (\<open>subject\<close> reads the subject from the decoded claims).
\<close>

definition jwt_round_trip :: "sign_fn \<Rightarrow> 'd verify_fn \<Rightarrow> ('d \<Rightarrow> js_value) \<Rightarrow> bool" where
  "jwt_round_trip jwt_sign jwt_verify subject \<longleftrightarrow>
     (\<forall>payload key tok now.
        jwt_sign payload key = Inr tok \<longrightarrow>
          tok \<noteq> [] \<and>
          (now div 1000 < jwt_exp payload \<longrightarrow>
             (\<exists>d. jwt_verify (JStr tok) key now = Inr d \<and> subject d = jwt_sub payload)))"

text \<open>
  The second part: \<^verbatim>\<open>jwt.verify\<close> returns claims exactly for a token whose signature
  verifies against the key and whose expiry has not passed.
\<close>

definition jwt_verifies ::
  "'d verify_fn \<Rightarrow> (js_value \<Rightarrow> js_value \<Rightarrow> bool) \<Rightarrow> (js_value \<Rightarrow> int \<Rightarrow> bool) \<Rightarrow> bool"
where
  "jwt_verifies jwt_verify signature_ok expired \<longleftrightarrow>
     (\<forall>tok key now.
        (\<exists>d. jwt_verify tok key now = Inr d) \<longleftrightarrow> (signature_ok tok key \<and> \<not> expired tok now))"

subsection \<open>A token library for the examples\<close>

text \<open>
  A stand-in for \<^verbatim>\<open>jsonwebtoken\<close> that keeps both promises, so that the theorems can
  be run on concrete requests: a token spells out the subject, the expiry and the key it
  was signed with, and verifying reads them back. It signs only a string subject, with a
  string key and an expiry that is not negative.
\<close>

definition demo_encode :: "string \<Rightarrow> nat \<Rightarrow> string \<Rightarrow> string" where
  "demo_encode u e k =
     replicate (length u) (CHR ''u'') @ CHR ''.'' # u @ replicate e (CHR ''e'') @ CHR ''.'' # k"

definition demo_decode :: "string \<Rightarrow> (string \<times> nat \<times> string) option" where
  "demo_decode s =
     (let n = length (takeWhile (\<lambda>c. c = CHR ''u'') s);
          r1 = drop (Suc n) s;
          u = take n r1;
          r2 = drop n r1;
          e = length (takeWhile (\<lambda>c. c = CHR ''e'') r2);
          k = drop (Suc e) r2
      in if demo_encode u e k = s then Some (u, e, k) else None)"

definition demo_error :: "string \<Rightarrow> js_error" where
  "demo_error msg = \<lparr>e_name = ''JsonWebTokenError'', e_message = msg, e_code = JUndefined\<rparr>"

definition demo_sign :: sign_fn where
  "demo_sign payload key =
     (case (jwt_sub payload, key) of
        (JStr u, JStr k) \<Rightarrow>
          if 0 \<le> jwt_exp payload then Inr (demo_encode u (nat (jwt_exp payload)) k)
          else Inl (demo_error ''invalid payload'')
      | _ \<Rightarrow> Inl (demo_error ''invalid payload''))"

definition demo_token :: "js_value \<Rightarrow> (string \<times> nat \<times> string) option" where
  "demo_token tok = (case tok of JStr s \<Rightarrow> demo_decode s | _ \<Rightarrow> None)"

definition demo_signature_ok :: "js_value \<Rightarrow> js_value \<Rightarrow> bool" where
  "demo_signature_ok tok key =
     (case demo_token tok of None \<Rightarrow> False | Some (u, e, k) \<Rightarrow> key = JStr k)"

definition demo_expired :: "js_value \<Rightarrow> int \<Rightarrow> bool" where
  "demo_expired tok now =
     (case demo_token tok of None \<Rightarrow> False | Some (u, e, k) \<Rightarrow> int e \<le> now div 1000)"

definition demo_verify :: "jwt_payload verify_fn" where
  "demo_verify tok key now =
     (case demo_token tok of
        None \<Rightarrow> Inl (demo_error ''jwt malformed'')
      | Some (u, e, k) \<Rightarrow>
          if key \<noteq> JStr k then Inl (demo_error ''invalid signature'')
          else if int e \<le> now div 1000 then Inl (demo_error ''jwt expired'')
          else Inr \<lparr>jwt_exp = int e, jwt_sub = JStr u\<rparr>)"

text \<open>
  An \<^verbatim>\<open>fs.stat\<close> for the examples: it takes a string without a null byte as a path
  and refuses every other value with a \<^verbatim>\<open>TypeError\<close> (whose message depends on the
  version of Node).
\<close>

definition invalid_path :: "string \<Rightarrow> js_error" where
  "invalid_path code =
     \<lparr>e_name = ''TypeError'', e_message = ''The \"path\" argument is invalid'',
      e_code = JStr code\<rparr>"

fun demo_stat :: stat_fn where
  "demo_stat (JStr s) =
     (if CHR 0x00 \<in> set s then Some (invalid_path ''ERR_INVALID_ARG_VALUE'') else None)"
| "demo_stat _ = Some (invalid_path ''ERR_INVALID_ARG_TYPE'')"

text \<open>A configured state and requests for the examples.\<close>

definition demo_state :: module_state where
  "demo_state =
     \<lparr>m_useHttp = JBool False, m_tokenExpirationMinutes = JNum (Fin 5),
      m_secret = JStr ''k'', m_userStoreFilePath = JStr ''users.json''\<rparr>"

definition demo_state_v2 :: module_state_v2 where
  "demo_state_v2 =
     \<lparr>m2_tokenExpirationMinutes = JNum (Fin 5), m2_secret = JStr ''k'',
      m2_userStoreFilePath = JStr ''users.json''\<rparr>"

definition login_request :: "request option" where
  "login_request =
     Some \<lparr>r_query = Some \<lparr>q_username = JStr ''ann'', q_password = JStr ''pw'',
                            q_token = JUndefined\<rparr>,
           r_body = None, r_headers = None\<rparr>"

definition token_request :: "js_value \<Rightarrow> js_value \<Rightarrow> request option" where
  "token_request query_token authorization =
     Some \<lparr>r_query = Some \<lparr>q_username = JUndefined, q_password = JUndefined,
                            q_token = query_token\<rparr>,
           r_body = None, r_headers = Some \<lparr>h_authorization = authorization\<rparr>\<rparr>"

definition accept_all :: validate_fn where
  "accept_all username password path = Inr (JBool True)"

definition accept_none :: validate_fn where
  "accept_none username password path = Inr (JBool False)"

definition store_unreadable :: js_error where
  "store_unreadable =
     \<lparr>e_name = ''Error'', e_message = ''ENOENT: no such file or directory'',
      e_code = JStr ''ENOENT''\<rparr>"

definition failing_store :: validate_fn where
  "failing_store username password path = Inl store_unreadable"

section \<open>Properties of the configuration\<close>

lemma truthy_integer_cases:
  "truthy v \<and> Number_isInteger v \<and> \<not> js_less v 5
     \<longleftrightarrow> (\<exists>n::int. 5 \<le> n \<and> v = JNum (Fin (of_int n)))"
proof
  assume h: "truthy v \<and> Number_isInteger v \<and> \<not> js_less v 5"
  then obtain q where v: "v = JNum (Fin q)"
    by (cases v rule: Number_isInteger.cases) auto
  with h have q: "of_int \<lfloor>q\<rfloor> = q" and "\<not> q < 5" by auto
  then have "5 \<le> \<lfloor>q\<rfloor>" by (simp add: le_floor_iff)
  with v q show "\<exists>n::int. 5 \<le> n \<and> v = JNum (Fin (of_int n))" by metis
next
  assume "\<exists>n::int. 5 \<le> n \<and> v = JNum (Fin (of_int n))"
  then obtain n :: int where "5 \<le> n" "v = JNum (Fin (of_int n))" by blast
  then show "truthy v \<and> Number_isInteger v \<and> \<not> js_less v 5"
    by (auto simp: not_less)
qed

lemma auth_stat_throws:
  "fs_stat path = Some err \<Longrightarrow> auth fs_stat secret path opts g = (g, Inl err)"
  by (simp add: auth_def)

lemma auth_v2_stat_throws:
  "fs_stat path = Some err \<Longrightarrow> auth_v2 fs_stat secret path opts g = (g, Inl err)"
  by (simp add: auth_v2_def)

lemma auth_result:
  "fs_stat path = None \<Longrightarrow>
   snd (auth fs_stat secret path opts g) =
     (let opt = options_or_default opts in
      if truthy (o_useHttp opt) \<and> \<not> is_boolean (o_useHttp opt) then Inl useHttp_error
      else if truthy (o_tokenExpirationMinutes opt)
              \<and> (\<not> Number_isInteger (o_tokenExpirationMinutes opt)
                   \<or> js_less (o_tokenExpirationMinutes opt) 5)
           then Inl tokenExpirationMinutes_error
           else Inr auth_handle)"
  by (simp add: auth_def Let_def)

lemma auth_v2_result:
  "fs_stat path = None \<Longrightarrow>
   snd (auth_v2 fs_stat secret path opts g) =
     (let t = o_tokenExpirationMinutes (options_or_default opts) in
      if truthy t \<and> (\<not> Number_isInteger t \<or> js_less t 5)
      then Inl tokenExpirationMinutes_error
      else Inr auth_handle)"
  by (simp add: auth_v2_def Let_def js_or_def TOKEN_EXPIRATION_MINUTES_def)

lemma errors_differ: "useHttp_error \<noteq> tokenExpirationMinutes_error"
  by (simp add: useHttp_error_def tokenExpirationMinutes_error_def new_Error_def)

lemma demo_stat_users [simp]: "demo_stat (JStr ''users.json'') = None"
  by simp

text \<open>
  C5, as the code has it. Both listings let a falsy \<^verbatim>\<open>tokenExpirationMinutes\<close> pass as
  if it were absent: the first guards the check with \<^verbatim>\<open>options.tokenExpirationMinutes &&\<close>,
  the second checks the value after \<^verbatim>\<open>|| TOKEN_EXPIRATION_MINTUES\<close> has replaced it.
  For every options object whose \<^verbatim>\<open>tokenExpirationMinutes\<close> is truthy and is not an
  integer of at least 5, \<^verbatim>\<open>auth\<close> throws, whatever the other arguments are: the error
  of \<^verbatim>\<open>fs.stat\<close> when that call refuses the path; else, in the second listing, the
  error about \<^verbatim>\<open>tokenExpirationMinutes\<close>, and in the first that one too unless the
  \<^verbatim>\<open>useHttp\<close> check, which comes before, has already thrown.
\<close>

theorem auth_rejects_truthy_bad_lifetime:
  assumes "truthy (o_tokenExpirationMinutes opt)"
    and "\<not> (\<exists>n::int. 5 \<le> n \<and> o_tokenExpirationMinutes opt = JNum (Fin (of_int n)))"
  shows "snd (auth fs_stat secret path (Some opt) g) =
           Inl (case fs_stat path of
                  Some err \<Rightarrow> err
                | None \<Rightarrow>
                    if truthy (o_useHttp opt) \<and> \<not> is_boolean (o_useHttp opt)
                    then useHttp_error else tokenExpirationMinutes_error)
         \<and> snd (auth_v2 fs_stat secret path (Some opt) g2) =
           Inl (case fs_stat path of
                  Some err \<Rightarrow> err
                | None \<Rightarrow> tokenExpirationMinutes_error)"
proof (cases "fs_stat path")
  case (Some err)
  then show ?thesis by (simp add: auth_stat_throws auth_v2_stat_throws)
next
  case None
  from assms truthy_integer_cases [of "o_tokenExpirationMinutes opt"]
  have "\<not> Number_isInteger (o_tokenExpirationMinutes opt)
          \<or> js_less (o_tokenExpirationMinutes opt) 5"
    by blast
  with assms(1) None show ?thesis
    by (auto simp: auth_result auth_v2_result options_or_default_def Let_def)
qed

text \<open>
  The instance of the spec: \<^verbatim>\<open>{tokenExpirationMinutes: 3}\<close> makes both listings throw
  the error about \<^verbatim>\<open>tokenExpirationMinutes\<close> when the path is a string, and the error
  of \<^verbatim>\<open>fs.stat\<close> when the path is \<^verbatim>\<open>undefined\<close>.
\<close>

theorem auth_rejects_truthy_bad_lifetime_witness:
  "snd (auth demo_stat (JStr ''s'') (JStr ''users.json'')
          (Some \<lparr>o_useHttp = JUndefined, o_tokenExpirationMinutes = JNum (Fin 3)\<rparr>) initial_state)
     = Inl tokenExpirationMinutes_error
   \<and> snd (auth_v2 demo_stat (JStr ''s'') (JStr ''users.json'')
          (Some \<lparr>o_useHttp = JUndefined, o_tokenExpirationMinutes = JNum (Fin 3)\<rparr>) initial_state_v2)
     = Inl tokenExpirationMinutes_error
   \<and> snd (auth demo_stat (JStr ''s'') JUndefined
          (Some \<lparr>o_useHttp = JUndefined, o_tokenExpirationMinutes = JNum (Fin 3)\<rparr>) initial_state)
     = Inl (invalid_path ''ERR_INVALID_ARG_TYPE'')
   \<and> snd (auth_v2 demo_stat (JStr ''s'') JUndefined
          (Some \<lparr>o_useHttp = JUndefined, o_tokenExpirationMinutes = JNum (Fin 3)\<rparr>) initial_state_v2)
     = Inl (invalid_path ''ERR_INVALID_ARG_TYPE'')"
proof -
  have three: "\<not> (\<exists>n::int. 5 \<le> n \<and> JNum (Fin 3) = JNum (Fin (of_int n)))"
  proof
    assume "\<exists>n::int. 5 \<le> n \<and> JNum (Fin 3) = JNum (Fin (of_int n))"
    then obtain n :: int where "5 \<le> n" and "(3::rat) = of_int n" by auto
    then have "(of_int n :: rat) = of_int 3" by simp
    then have "n = 3" by (simp only: of_int_eq_iff)
    with \<open>5 \<le> n\<close> show False by simp
  qed
  from three auth_rejects_truthy_bad_lifetime
    [of "\<lparr>o_useHttp = JUndefined, o_tokenExpirationMinutes = JNum (Fin 3)\<rparr>"
        demo_stat "JStr ''s''" "JStr ''users.json''" initial_state initial_state_v2]
  have a: "snd (auth demo_stat (JStr ''s'') (JStr ''users.json'')
          (Some \<lparr>o_useHttp = JUndefined, o_tokenExpirationMinutes = JNum (Fin 3)\<rparr>) initial_state)
     = Inl tokenExpirationMinutes_error
   \<and> snd (auth_v2 demo_stat (JStr ''s'') (JStr ''users.json'')
          (Some \<lparr>o_useHttp = JUndefined, o_tokenExpirationMinutes = JNum (Fin 3)\<rparr>) initial_state_v2)
     = Inl tokenExpirationMinutes_error"
    by simp
  from three auth_rejects_truthy_bad_lifetime
    [of "\<lparr>o_useHttp = JUndefined, o_tokenExpirationMinutes = JNum (Fin 3)\<rparr>"
        demo_stat "JStr ''s''" JUndefined initial_state initial_state_v2]
  have b: "snd (auth demo_stat (JStr ''s'') JUndefined
          (Some \<lparr>o_useHttp = JUndefined, o_tokenExpirationMinutes = JNum (Fin 3)\<rparr>) initial_state)
     = Inl (invalid_path ''ERR_INVALID_ARG_TYPE'')
   \<and> snd (auth_v2 demo_stat (JStr ''s'') JUndefined
          (Some \<lparr>o_useHttp = JUndefined, o_tokenExpirationMinutes = JNum (Fin 3)\<rparr>) initial_state_v2)
     = Inl (invalid_path ''ERR_INVALID_ARG_TYPE'')"
    by simp
  from a b show ?thesis by simp
qed

text \<open>
  C5 as the spec states it fails at the value 0, which it names: with the path
  \<^verbatim>\<open>'users.json'\<close>, which \<^verbatim>\<open>fs.stat\<close> takes, and \<^verbatim>\<open>{tokenExpirationMinutes: 0}\<close>
  both listings return the handle and store the default of 60 minutes.
\<close>

theorem auth_accepts_zero_lifetime:
  "auth demo_stat (JStr ''s'') (JStr ''users.json'')
      (Some \<lparr>o_useHttp = JUndefined, o_tokenExpirationMinutes = JNum (Fin 0)\<rparr>) initial_state
     = (\<lparr>m_useHttp = JBool False, m_tokenExpirationMinutes = JNum (Fin 60),
         m_secret = JStr ''s'', m_userStoreFilePath = JStr ''users.json''\<rparr>, Inr auth_handle)
   \<and> auth_v2 demo_stat (JStr ''s'') (JStr ''users.json'')
      (Some \<lparr>o_useHttp = JUndefined, o_tokenExpirationMinutes = JNum (Fin 0)\<rparr>) initial_state_v2
     = (\<lparr>m2_tokenExpirationMinutes = JNum (Fin 60), m2_secret = JStr ''s'',
         m2_userStoreFilePath = JStr ''users.json''\<rparr>, Inr auth_handle)"
  by (simp add: auth_def auth_v2_def options_or_default_def js_or_def
      TOKEN_EXPIRATION_MINUTES_def initial_state_def initial_state_v2_def Let_def)

lemma js_or_false_boolean:
  "\<not> (truthy v \<and> \<not> is_boolean v) \<Longrightarrow> js_or v (JBool False) = JBool (v = JBool True)"
  by (cases v) (auto simp: js_or_def)

lemma auth_useHttp_stored:
  assumes stat: "fs_stat path = None"
    and a: "\<not> (truthy (o_useHttp (options_or_default opts))
        \<and> \<not> is_boolean (o_useHttp (options_or_default opts)))"
  shows "m_useHttp (fst (auth fs_stat secret path opts g))
         = JBool (o_useHttp (options_or_default opts) = JBool True)"
  using stat a js_or_false_boolean [OF a] by (auto simp: auth_def Let_def)

lemma auth_returns_handle:
  assumes "auth fs_stat secret path opts g = (g', Inr h)"
  shows "fs_stat path = None"
    and "\<not> (truthy (o_useHttp (options_or_default opts))
        \<and> \<not> is_boolean (o_useHttp (options_or_default opts)))"
proof -
  show stat: "fs_stat path = None"
    using assms by (cases "fs_stat path") (simp_all add: auth_def)
  from assms have "snd (auth fs_stat secret path opts g) = Inr h" by simp
  with stat show "\<not> (truthy (o_useHttp (options_or_default opts))
        \<and> \<not> is_boolean (o_useHttp (options_or_default opts)))"
    by (auto simp: auth_result Let_def split: if_splits)
qed

text \<open>
  C10. After a call of \<^verbatim>\<open>auth\<close> (first listing) that returns the handle,
  \<^verbatim>\<open>_useHttp\<close> is a boolean, and it is \<^verbatim>\<open>true\<close> exactly when the option was the
  boolean \<^verbatim>\<open>true\<close>. When \<^verbatim>\<open>fs.stat\<close> takes the path, \<^verbatim>\<open>auth\<close> throws the
  \<^verbatim>\<open>useHttp\<close> error exactly when \<^verbatim>\<open>options.useHttp\<close> is truthy and not a boolean,
  and a falsy option (absent, \<^verbatim>\<open>false\<close>, 0, the empty string, \<^verbatim>\<open>null\<close>) stores
  \<^verbatim>\<open>false\<close> and raises nothing: the call then ends as the check of
  \<^verbatim>\<open>tokenExpirationMinutes\<close> decides. When \<^verbatim>\<open>fs.stat\<close> refuses the path, \<^verbatim>\<open>auth\<close>
  throws that error before it looks at the options, and the variables stay as they were.
\<close>

theorem useHttp_stored_boolean:
  "(\<forall>g' h. auth fs_stat secret path opts g = (g', Inr h)
         \<longrightarrow> m_useHttp g' = JBool (o_useHttp (options_or_default opts) = JBool True))
   \<and> (fs_stat path = None \<longrightarrow>
        (snd (auth fs_stat secret path opts g) = Inl useHttp_error
           \<longleftrightarrow> truthy (o_useHttp (options_or_default opts))
               \<and> \<not> is_boolean (o_useHttp (options_or_default opts)))
        \<and> (\<not> truthy (o_useHttp (options_or_default opts))
              \<longrightarrow> m_useHttp (fst (auth fs_stat secret path opts g)) = JBool False
                  \<and> snd (auth fs_stat secret path opts g) =
                      (if truthy (o_tokenExpirationMinutes (options_or_default opts))
                          \<and> (\<not> Number_isInteger
                                   (o_tokenExpirationMinutes (options_or_default opts))
                               \<or> js_less (o_tokenExpirationMinutes (options_or_default opts)) 5)
                       then Inl tokenExpirationMinutes_error else Inr auth_handle)))
   \<and> (\<forall>err. fs_stat path = Some err
         \<longrightarrow> auth fs_stat secret path opts g = (g, Inl err))"
proof (intro conjI allI impI)
  fix g' h
  assume ok: "auth fs_stat secret path opts g = (g', Inr h)"
  from auth_useHttp_stored [of fs_stat path opts secret g] auth_returns_handle [OF ok] ok
  show "m_useHttp g' = JBool (o_useHttp (options_or_default opts) = JBool True)" by simp
next
  assume stat: "fs_stat path = None"
  show "snd (auth fs_stat secret path opts g) = Inl useHttp_error
      \<longleftrightarrow> truthy (o_useHttp (options_or_default opts))
          \<and> \<not> is_boolean (o_useHttp (options_or_default opts))"
    using errors_differ stat by (auto simp: auth_result Let_def)
next
  assume stat: "fs_stat path = None"
    and falsy: "\<not> truthy (o_useHttp (options_or_default opts))"
  then have "o_useHttp (options_or_default opts) \<noteq> JBool True" by auto
  with falsy stat auth_useHttp_stored [of fs_stat path opts secret g]
  show "m_useHttp (fst (auth fs_stat secret path opts g)) = JBool False" by simp
next
  assume stat: "fs_stat path = None"
    and falsy: "\<not> truthy (o_useHttp (options_or_default opts))"
  then show "snd (auth fs_stat secret path opts g) =
                 (if truthy (o_tokenExpirationMinutes (options_or_default opts))
                     \<and> (\<not> Number_isInteger (o_tokenExpirationMinutes (options_or_default opts))
                          \<or> js_less (o_tokenExpirationMinutes (options_or_default opts)) 5)
                  then Inl tokenExpirationMinutes_error else Inr auth_handle)"
    by (simp add: auth_result Let_def)
next
  fix err
  assume "fs_stat path = Some err"
  then show "auth fs_stat secret path opts g = (g, Inl err)" by (rule auth_stat_throws)
qed

text \<open>
  The theorem with the path \<^verbatim>\<open>'users.json'\<close> at \<^verbatim>\<open>{useHttp: 0}\<close>, which stores
  \<^verbatim>\<open>false\<close> and returns the handle, at \<^verbatim>\<open>{useHttp: true}\<close>, which stores \<^verbatim>\<open>true\<close>,
  and at \<^verbatim>\<open>{useHttp: 'yes'}\<close>, which throws; and with the path \<^verbatim>\<open>undefined\<close>, where
  \<^verbatim>\<open>fs.stat\<close> throws and a stored \<^verbatim>\<open>true\<close> stays.
\<close>

theorem useHttp_stored_boolean_witness:
  "snd (auth demo_stat (JStr ''s'') (JStr ''users.json'')
          (Some \<lparr>o_useHttp = JNum (Fin 0), o_tokenExpirationMinutes = JUndefined\<rparr>) initial_state)
     = Inr auth_handle
   \<and> m_useHttp (fst (auth demo_stat (JStr ''s'') (JStr ''users.json'')
          (Some \<lparr>o_useHttp = JNum (Fin 0), o_tokenExpirationMinutes = JUndefined\<rparr>) initial_state))
     = JBool False
   \<and> m_useHttp (fst (auth demo_stat (JStr ''s'') (JStr ''users.json'')
          (Some \<lparr>o_useHttp = JBool True, o_tokenExpirationMinutes = JUndefined\<rparr>) initial_state))
     = JBool True
   \<and> snd (auth demo_stat (JStr ''s'') (JStr ''users.json'')
          (Some \<lparr>o_useHttp = JStr ''yes'', o_tokenExpirationMinutes = JUndefined\<rparr>) initial_state)
     = Inl useHttp_error
   \<and> auth demo_stat (JStr ''s'') JUndefined
          (Some \<lparr>o_useHttp = JNum (Fin 0), o_tokenExpirationMinutes = JUndefined\<rparr>)
          (initial_state\<lparr>m_useHttp := JBool True\<rparr>)
     = (initial_state\<lparr>m_useHttp := JBool True\<rparr>, Inl (invalid_path ''ERR_INVALID_ARG_TYPE''))"
proof -
  let ?a = "\<lambda>v. auth demo_stat (JStr ''s'') (JStr ''users.json'')
          (Some \<lparr>o_useHttp = v, o_tokenExpirationMinutes = JUndefined\<rparr>) initial_state"
  have ok: "?a (JBool True) = (fst (?a (JBool True)), Inr auth_handle)"
    by (simp add: auth_def options_or_default_def Let_def)
  from useHttp_stored_boolean
      [of demo_stat "JStr ''s''" "JStr ''users.json''"
          "Some \<lparr>o_useHttp = JNum (Fin 0), o_tokenExpirationMinutes = JUndefined\<rparr>" initial_state]
  have zero: "snd (?a (JNum (Fin 0))) = Inr auth_handle
      \<and> m_useHttp (fst (?a (JNum (Fin 0)))) = JBool False"
    by (simp add: options_or_default_def)
  from useHttp_stored_boolean
      [of demo_stat "JStr ''s''" "JStr ''users.json''"
          "Some \<lparr>o_useHttp = JBool True, o_tokenExpirationMinutes = JUndefined\<rparr>" initial_state]
  have "\<forall>g' h. ?a (JBool True) = (g', Inr h) \<longrightarrow> m_useHttp g' = JBool True"
    by (simp add: options_or_default_def)
  with ok have true: "m_useHttp (fst (?a (JBool True))) = JBool True"
    by blast
  from useHttp_stored_boolean
      [of demo_stat "JStr ''s''" "JStr ''users.json''"
          "Some \<lparr>o_useHttp = JStr ''yes'', o_tokenExpirationMinutes = JUndefined\<rparr>" initial_state]
  have yes: "snd (?a (JStr ''yes'')) = Inl useHttp_error"
    by (simp add: options_or_default_def)
  from useHttp_stored_boolean
      [of demo_stat "JStr ''s''" JUndefined
          "Some \<lparr>o_useHttp = JNum (Fin 0), o_tokenExpirationMinutes = JUndefined\<rparr>"
          "initial_state\<lparr>m_useHttp := JBool True\<rparr>"]
  have refused: "auth demo_stat (JStr ''s'') JUndefined
          (Some \<lparr>o_useHttp = JNum (Fin 0), o_tokenExpirationMinutes = JUndefined\<rparr>)
          (initial_state\<lparr>m_useHttp := JBool True\<rparr>)
     = (initial_state\<lparr>m_useHttp := JBool True\<rparr>, Inl (invalid_path ''ERR_INVALID_ARG_TYPE''))"
    by simp
  from zero true yes refused show ?thesis by simp
qed

section \<open>Properties of authenticate and authorize\<close>

text \<open>The promise each function returns, and the state it leaves.\<close>

lemma authenticate_result:
  "snd (authenticate validateCredentials jwt_sign g now req) =
     (case request_credentials req of
        Inl err \<Rightarrow> Some (reject err Pending)
      | Inr (username, password) \<Rightarrow>
          (case validateCredentials username password (m_userStoreFilePath g) of
             Inl err \<Rightarrow> Some (reject err Pending)
           | Inr valid \<Rightarrow>
               authenticate_then jwt_sign (m_tokenExpirationMinutes g) (m_secret g) now
                 username valid Pending))"
  by (simp add: authenticate_def split: sum.split prod.split)

lemma authenticate_v2_result:
  "snd (authenticate_v2 validateCredentials jwt_sign g now username password) =
     (case validateCredentials username password (m2_userStoreFilePath g) of
        Inl err \<Rightarrow> Some (reject err Pending)
      | Inr valid \<Rightarrow>
          authenticate_then jwt_sign (m2_tokenExpirationMinutes g) (m2_secret g) now
            username valid Pending)"
  by (simp add: authenticate_v2_def split: sum.split)

lemma authorize_result:
  "snd (authorize jwt_verify g now req) =
     (let token = request_token req;
          p1 = (if \<not> truthy token then reject no_token_error Pending else Pending)
      in authorize_callback (jwt_verify token (m_secret g) now) p1)"
  by (simp add: authorize_def Let_def)

lemma authorize_v2_result:
  "snd (authorize_v2 jwt_verify g now token) =
     authorize_callback (jwt_verify token (m2_secret g) now) Pending"
  by (simp add: authorize_v2_def)

lemma authenticationSpecification_state: "fst (authenticationSpecification g) = g"
  by (simp add: authenticationSpecification_def)

lemma authenticate_state: "fst (authenticate validateCredentials jwt_sign g now req) = g"
  by (simp add: authenticate_def split: sum.split prod.split)

lemma authorize_state: "fst (authorize jwt_verify g now req) = g"
  by (simp add: authorize_def Let_def)

lemma reject_Pending [simp]: "reject err Pending = Rejected err"
  by (simp add: reject_def)

lemma resolve_Pending [simp]: "resolve v Pending = Resolved v"
  by (simp add: resolve_def)

lemma reject_Rejected [simp]: "reject err (Rejected e) = Rejected e"
  by (simp add: reject_def)

lemma resolve_Rejected [simp]: "resolve v (Rejected e) = Rejected e"
  by (simp add: resolve_def)

lemma authenticate_then_falsy:
  "\<not> truthy valid \<Longrightarrow>
   authenticate_then jwt_sign t secret now username valid Pending = Some (Rejected invalid_credentials)"
  by (simp add: authenticate_then_def Let_def split: option.split sum.split)

lemma invalid_credentials_code: "e_code invalid_credentials = JNum (Fin 401)"
  by (simp add: invalid_credentials_def set_code_401_def)

lemma login_credentials:
  "request_credentials login_request = Inr (JStr ''ann'', JStr ''pw'')"
  by (simp add: request_credentials_def credential_def query_field_def login_request_def)

text \<open>
  C1. When the collaborator answers with a falsy value, \<^verbatim>\<open>false\<close> among them, the promise
  of \<^verbatim>\<open>authenticate\<close> is rejected with the error \<^verbatim>\<open>Invalid credentials.\<close> whose code is
  401, in both listings. The handler goes on to sign a token and to call \<^verbatim>\<open>resolve\<close>,
  but the promise is settled by then: it is not resolved with the token, whatever
  \<^verbatim>\<open>jwt.sign\<close> does and whatever the configuration and the clock are. In the first
  listing the collaborator is called with the credentials read from the request.
\<close>

theorem invalid_credentials_rejected:
  assumes "\<not> truthy valid"
  shows "(request_credentials req = Inr (username, password)
            \<and> validateCredentials username password (m_userStoreFilePath g) = Inr valid
          \<longrightarrow> snd (authenticate validateCredentials jwt_sign g now req)
                = Some (Rejected invalid_credentials))
       \<and> (validateCredentials username password (m2_userStoreFilePath g2) = Inr valid
          \<longrightarrow> snd (authenticate_v2 validateCredentials jwt_sign g2 now username password)
                = Some (Rejected invalid_credentials))
       \<and> e_code invalid_credentials = JNum (Fin 401)"
  using assms
  by (simp add: authenticate_result authenticate_v2_result authenticate_then_falsy
      invalid_credentials_code)

text \<open>The theorem on a login that the collaborator turns down.\<close>

theorem invalid_credentials_rejected_witness:
  "snd (authenticate accept_none demo_sign demo_state 0 login_request)
     = Some (Rejected invalid_credentials)
   \<and> snd (authenticate_v2 accept_none demo_sign demo_state_v2 0 (JStr ''ann'') (JStr ''pw''))
     = Some (Rejected invalid_credentials)
   \<and> e_code invalid_credentials = JNum (Fin 401)"
  using invalid_credentials_rejected
    [of "JBool False" login_request "JStr ''ann''" "JStr ''pw''" accept_none demo_state
        demo_sign 0 demo_state_v2]
  by (simp add: login_credentials accept_none_def)

text \<open>
  C8. When the collaborator fails with an error, the promise of \<^verbatim>\<open>authenticate\<close> is
  rejected with that very error: no code is set on it and nothing is retried.
\<close>

theorem collaborator_error_propagates:
  "(request_credentials req = Inr (username, password)
      \<and> validateCredentials username password (m_userStoreFilePath g) = Inl err
    \<longrightarrow> snd (authenticate validateCredentials jwt_sign g now req) = Some (Rejected err))
   \<and> (validateCredentials username password (m2_userStoreFilePath g2) = Inl err
    \<longrightarrow> snd (authenticate_v2 validateCredentials jwt_sign g2 now username password)
          = Some (Rejected err))"
  by (simp add: authenticate_result authenticate_v2_result)

text \<open>The theorem on a store that cannot be read.\<close>

theorem collaborator_error_propagates_witness:
  "snd (authenticate failing_store demo_sign demo_state 0 login_request) = Some (Rejected store_unreadable)
   \<and> snd (authenticate_v2 failing_store demo_sign demo_state_v2 0 (JStr ''ann'') (JStr ''pw''))
       = Some (Rejected store_unreadable)"
  using collaborator_error_propagates
    [of login_request "JStr ''ann''" "JStr ''pw''" failing_store demo_state store_unreadable
        demo_sign 0 demo_state_v2]
  by (simp add: login_credentials failing_store_def)

lemma request_token_falsy:
  "\<not> truthy (query_field q_token req) \<Longrightarrow> \<not> truthy (header_field h_authorization req)
   \<Longrightarrow> request_token req = JUndefined"
  by (simp add: request_token_def)

text \<open>
  C6. A request with neither a truthy \<^verbatim>\<open>token\<close> query parameter nor a truthy
  \<^verbatim>\<open>authorization\<close> header makes \<^verbatim>\<open>authorize\<close> reject with the error
  \<^verbatim>\<open>No authorization token.\<close> whose code is 401. \<^verbatim>\<open>jwt.verify\<close> is still called, but
  whatever it reports, the promise stays rejected with that error and is not resolved.
\<close>

theorem authorize_without_token:
  assumes "\<not> truthy (query_field q_token req)"
    and "\<not> truthy (header_field h_authorization req)"
  shows "snd (authorize jwt_verify g now req) = Rejected no_token_error
       \<and> e_code no_token_error = JNum (Fin 401)
       \<and> e_message no_token_error = ''No authorization token.''"
  using assms
  by (simp add: authorize_result request_token_falsy authorize_callback_def no_token_error_def
      set_code_401_def new_Error_def Let_def split: sum.split)

text \<open>The theorem on a request with an empty header and on a missing request.\<close>

theorem authorize_without_token_witness:
  "snd (authorize demo_verify demo_state 0 (token_request JUndefined (JStr []))) = Rejected no_token_error
   \<and> snd (authorize demo_verify demo_state 0 None) = Rejected no_token_error
   \<and> e_code no_token_error = JNum (Fin 401)"
  using authorize_without_token [of "token_request JUndefined (JStr [])" demo_verify demo_state 0]
    authorize_without_token [of None demo_verify demo_state 0]
  by (simp add: query_field_def header_field_def token_request_def)

section \<open>The token library of the examples\<close>

text \<open>
  The token library of the examples keeps the two promises.
\<close>

lemma takeWhile_run:
  "c \<noteq> d \<Longrightarrow> takeWhile (\<lambda>x. x = c) (replicate n c @ d # rest) = replicate n c"
  by (induction n) auto

lemma demo_decode_encode: "demo_decode (demo_encode u e k) = Some (u, e, k)"
proof -
  have 1: "takeWhile (\<lambda>c. c = CHR ''u'') (demo_encode u e k) = replicate (length u) (CHR ''u'')"
    unfolding demo_encode_def by (rule takeWhile_run) simp
  have 2: "drop (Suc (length u)) (demo_encode u e k) = u @ replicate e (CHR ''e'') @ CHR ''.'' # k"
    by (simp add: demo_encode_def)
  have 3: "takeWhile (\<lambda>c. c = CHR ''e'') (replicate e (CHR ''e'') @ CHR ''.'' # k)
             = replicate e (CHR ''e'')"
    by (rule takeWhile_run) simp
  show ?thesis
    unfolding demo_decode_def Let_def 1 length_replicate 2
    by (simp add: 3)
qed

lemma demo_encode_nonempty: "demo_encode u e k \<noteq> []"
  by (simp add: demo_encode_def)

lemma demo_round_trip: "jwt_round_trip demo_sign demo_verify jwt_sub"
  unfolding jwt_round_trip_def
proof (intro allI impI conjI)
  fix payload key tok now
  assume s: "demo_sign payload key = Inr tok"
  then obtain u k where *: "jwt_sub payload = JStr u" "key = JStr k" "0 \<le> jwt_exp payload"
      "tok = demo_encode u (nat (jwt_exp payload)) k"
    by (auto simp: demo_sign_def split: js_value.splits if_splits)
  show "tok \<noteq> []" using * by (simp add: demo_encode_nonempty)
  assume "now div 1000 < jwt_exp payload"
  with * show "\<exists>d. demo_verify (JStr tok) key now = Inr d \<and> jwt_sub d = jwt_sub payload"
    by (simp add: demo_verify_def demo_token_def demo_decode_encode)
qed

lemma demo_verifies: "jwt_verifies demo_verify demo_signature_ok demo_expired"
  unfolding jwt_verifies_def
  by (auto simp: demo_verify_def demo_signature_ok_def demo_expired_def split: option.splits)


section \<open>Tokens issued and verified\<close>

lemma exact_Some: "\<bar>n\<bar> \<le> 2 ^ 53 \<Longrightarrow> exact n = Some n"
  by (simp add: exact_def)

lemma expires_at_exact:
  assumes "\<bar>L * 60000\<bar> \<le> 2 ^ 53" and "\<bar>now\<bar> \<le> 2 ^ 53" and "\<bar>now + L * 60000\<bar> \<le> 2 ^ 53"
  shows "expires_at now (JNum (Fin (of_int L))) = Some (now + L * 60000)"
proof -
  have "\<bar>L\<bar> \<le> \<bar>L * 60000\<bar>" and "\<bar>L * 60\<bar> \<le> \<bar>L * 60000\<bar>"
    by (simp_all add: abs_mult)
  with assms(1) have "\<bar>L\<bar> \<le> 2 ^ 53" and "\<bar>L * 60\<bar> \<le> 2 ^ 53" by linarith+
  moreover have "L * 60 * 1000 = L * 60000" by simp
  ultimately show ?thesis
    using assms by (simp add: expires_at_def exact_Some)
qed

text \<open>
  C3. The stored lifetime is the integer \<open>L\<close> and the collaborator accepts the
  credentials. As long as the clock's reading, the lifetime in milliseconds and their sum
  are integers that doubles hold exactly, \<^verbatim>\<open>authenticate\<close> signs the payload with
  \<^verbatim>\<open>sub\<close> the submitted user name and \<^verbatim>\<open>exp\<close> the floor of \<open>expires / 1000\<close>, with
  the configured secret, where \<open>expires\<close> is the clock's reading plus \<open>L * 60000\<close>. It
  resolves with the token that \<^verbatim>\<open>jwt.sign\<close> returned and with \<open>expires\<close>; should
  \<^verbatim>\<open>jwt.sign\<close> throw, it rejects with that error.
\<close>

theorem authenticate_valid_credentials:
  assumes "request_credentials req = Inr (username, password)"
    and "validateCredentials username password (m_userStoreFilePath g) = Inr valid"
    and "truthy valid"
    and "m_tokenExpirationMinutes g = JNum (Fin (of_int L))"
    and "\<bar>L * 60000\<bar> \<le> 2 ^ 53" and "\<bar>now\<bar> \<le> 2 ^ 53" and "\<bar>now + L * 60000\<bar> \<le> 2 ^ 53"
  shows "snd (authenticate validateCredentials jwt_sign g now req) =
           Some (case jwt_sign \<lparr>jwt_exp = (now + L * 60000) div 1000, jwt_sub = username\<rparr>
                        (m_secret g) of
                   Inl err \<Rightarrow> Rejected err
                 | Inr tok \<Rightarrow> Resolved \<lparr>r_token = tok, r_expires = now + L * 60000\<rparr>)"
  using assms(1-4) expires_at_exact [OF assms(5-7)]
  by (simp add: authenticate_result authenticate_then_def Let_def split: sum.split)

lemma auth_demo_state:
  "auth demo_stat (JStr ''k'') (JStr ''users.json'')
     (Some \<lparr>o_useHttp = JUndefined, o_tokenExpirationMinutes = JNum (Fin 5)\<rparr>) initial_state
   = (demo_state, Inr auth_handle)"
  by (simp add: auth_def options_or_default_def js_or_def demo_state_def initial_state_def Let_def)

lemma demo_sign_ann:
  "demo_sign \<lparr>jwt_exp = 300, jwt_sub = JStr ''ann''\<rparr> (JStr ''k'')
     = Inr (demo_encode ''ann'' 300 ''k'')"
  by (simp add: demo_sign_def)

text \<open>
  The theorem on a login at clock reading 0 with a lifetime of 5 minutes; the state of
  the example is the one \<^verbatim>\<open>auth\<close> leaves, by \<open>auth_demo_state\<close>.
\<close>

theorem authenticate_valid_credentials_witness:
  "snd (authenticate accept_all demo_sign demo_state 0 login_request)
     = Some (Resolved \<lparr>r_token = demo_encode ''ann'' 300 ''k'', r_expires = 300000\<rparr>)"
  using authenticate_valid_credentials
    [of login_request "JStr ''ann''" "JStr ''pw''" accept_all demo_state "JBool True" 5 0 demo_sign]
  by (simp add: login_credentials accept_all_def demo_state_def demo_sign_ann)

lemma authenticate_resolved:
  assumes "snd (authenticate validateCredentials jwt_sign g now req) = Some (Resolved r)"
    and "request_credentials req = Inr (username, password)"
  shows "jwt_sign \<lparr>jwt_exp = r_expires r div 1000, jwt_sub = username\<rparr> (m_secret g)
           = Inr (r_token r)"
  using assms
  by (auto simp: authenticate_result authenticate_then_def Let_def reject_def resolve_def
      split: sum.splits option.splits if_splits promise.splits)

text \<open>
  C2. \<^verbatim>\<open>jsonwebtoken\<close> keeps its promise \<open>jwt_round_trip\<close>. Whatever the secret in the
  state is, when the collaborator accepts the credentials and \<^verbatim>\<open>authenticate\<close> has
  resolved with a token, \<^verbatim>\<open>authorize\<close> on a request that carries this token, at a
  clock reading whose second lies before the second of the expiry (which is the
  \<^verbatim>\<open>exp\<close> in the token), resolves with decoded claims whose subject is the user name
  given to \<^verbatim>\<open>authenticate\<close>.
\<close>

theorem authenticate_authorize_round_trip:
  assumes "jwt_round_trip jwt_sign jwt_verify subject"
    and "request_credentials req = Inr (username, password)"
    and "validateCredentials username password (m_userStoreFilePath g) = Inr valid"
    and "truthy valid"
    and "snd (authenticate validateCredentials jwt_sign g now req) = Some (Resolved r)"
    and "request_token req' = JStr (r_token r)"
    and "now' div 1000 < r_expires r div 1000"
  shows "\<exists>d. snd (authorize jwt_verify g now' req') = Resolved (Some d) \<and> subject d = username"
proof -
  let ?payload = "\<lparr>jwt_exp = r_expires r div 1000, jwt_sub = username\<rparr>"
  have signed: "jwt_sign ?payload (m_secret g) = Inr (r_token r)"
    using assms(5) assms(2) by (rule authenticate_resolved)
  with assms(1) have ne: "r_token r \<noteq> []"
    unfolding jwt_round_trip_def by blast
  from assms(1) signed assms(7)
  obtain d where d: "jwt_verify (JStr (r_token r)) (m_secret g) now' = Inr d"
      "subject d = username"
    unfolding jwt_round_trip_def by fastforce
  from ne d(1) assms(6) have "snd (authorize jwt_verify g now' req') = Resolved (Some d)"
    by (simp add: authorize_result authorize_callback_def Let_def)
  with d(2) show ?thesis by blast
qed

lemma token_request_token:
  "request_token (token_request q h) = (if truthy h then h else if truthy q then q else JUndefined)"
  by (simp add: request_token_def token_request_def query_field_def header_field_def Let_def)

text \<open>
  The theorem on the token of the login above, presented at once in the query parameter.
\<close>

theorem authenticate_authorize_round_trip_witness:
  "snd (authenticate accept_all demo_sign demo_state 0 login_request)
     = Some (Resolved \<lparr>r_token = demo_encode ''ann'' 300 ''k'', r_expires = 300000\<rparr>)
   \<and> (\<exists>d. snd (authorize demo_verify demo_state 0
              (token_request (JStr (demo_encode ''ann'' 300 ''k'')) JUndefined))
            = Resolved (Some d)
          \<and> jwt_sub d = JStr ''ann'')"
proof -
  have a: "snd (authenticate accept_all demo_sign demo_state 0 login_request)
     = Some (Resolved \<lparr>r_token = demo_encode ''ann'' 300 ''k'', r_expires = 300000\<rparr>)"
    by (simp add: authenticate_result authenticate_then_def login_credentials accept_all_def
        demo_state_def expires_at_def exact_def demo_sign_ann)
  have t: "request_token (token_request (JStr (demo_encode ''ann'' 300 ''k'')) JUndefined)
      = JStr (r_token \<lparr>r_token = demo_encode ''ann'' 300 ''k'', r_expires = 300000\<rparr>)"
    by (simp add: token_request_token demo_encode_nonempty)
  have v: "accept_all (JStr ''ann'') (JStr ''pw'') (m_userStoreFilePath demo_state)
      = Inr (JBool True)"
    by (simp add: accept_all_def)
  have "\<exists>d. snd (authorize demo_verify demo_state 0
              (token_request (JStr (demo_encode ''ann'' 300 ''k'')) JUndefined))
            = Resolved (Some d)
          \<and> jwt_sub d = JStr ''ann''"
    by (rule authenticate_authorize_round_trip
          [OF demo_round_trip login_credentials v _ a t]) simp_all
  with a show ?thesis by simp
qed

lemma authorize_cases:
  "snd (authorize jwt_verify g now req) =
     (if \<not> truthy (request_token req) then Rejected no_token_error
      else case jwt_verify (request_token req) (m_secret g) now of
             Inl err \<Rightarrow> Rejected (set_code_401 err)
           | Inr d \<Rightarrow> Resolved (Some d))"
  by (simp add: authorize_result authorize_callback_def Let_def split: sum.split)

lemma authorize_v2_cases:
  "snd (authorize_v2 jwt_verify g now token) =
     (case jwt_verify token (m2_secret g) now of
        Inl err \<Rightarrow> Rejected (set_code_401 err)
      | Inr d \<Rightarrow> Resolved (Some d))"
  by (simp add: authorize_v2_result authorize_callback_def split: sum.split)

lemma code_401 [simp]: "e_code (set_code_401 err) = JNum (Fin 401)"
  by (simp add: set_code_401_def)

lemma no_token_code [simp]: "e_code no_token_error = JNum (Fin 401)"
  by (simp add: no_token_error_def)

text \<open>
  C4. \<^verbatim>\<open>jsonwebtoken\<close> keeps its promise \<open>jwt_verifies\<close>. Then \<^verbatim>\<open>authorize\<close>
  resolves with decoded claims if and only if the request's token (which must be there)
  has a signature that verifies against the secret in the state and an expiry that has
  not passed; in every other case it rejects with an error whose code is 401. The second
  listing takes the token as its argument.
\<close>

theorem authorize_succeeds_iff_verified:
  assumes "jwt_verifies jwt_verify signature_ok expired"
  shows "((\<exists>d. snd (authorize jwt_verify g now req) = Resolved (Some d))
            \<longleftrightarrow> truthy (request_token req)
                \<and> signature_ok (request_token req) (m_secret g)
                \<and> \<not> expired (request_token req) now)
       \<and> ((\<nexists>d. snd (authorize jwt_verify g now req) = Resolved (Some d))
            \<longrightarrow> (\<exists>err. snd (authorize jwt_verify g now req) = Rejected err
                       \<and> e_code err = JNum (Fin 401)))
       \<and> ((\<exists>d. snd (authorize_v2 jwt_verify g2 now token) = Resolved (Some d))
            \<longleftrightarrow> signature_ok token (m2_secret g2) \<and> \<not> expired token now)
       \<and> ((\<nexists>d. snd (authorize_v2 jwt_verify g2 now token) = Resolved (Some d))
            \<longrightarrow> (\<exists>err. snd (authorize_v2 jwt_verify g2 now token) = Rejected err
                       \<and> e_code err = JNum (Fin 401)))"
proof (intro conjI)
  have c: "\<And>tok key. (\<exists>d. jwt_verify tok key now = Inr d)
              \<longleftrightarrow> signature_ok tok key \<and> \<not> expired tok now"
    using assms unfolding jwt_verifies_def by blast
  show "(\<exists>d. snd (authorize jwt_verify g now req) = Resolved (Some d))
            \<longleftrightarrow> truthy (request_token req)
                \<and> signature_ok (request_token req) (m_secret g)
                \<and> \<not> expired (request_token req) now"
    unfolding c [symmetric] authorize_cases by (auto split: sum.splits)
  show "(\<nexists>d. snd (authorize jwt_verify g now req) = Resolved (Some d))
            \<longrightarrow> (\<exists>err. snd (authorize jwt_verify g now req) = Rejected err
                       \<and> e_code err = JNum (Fin 401))"
    unfolding authorize_cases by (auto split: sum.splits)
  show "(\<exists>d. snd (authorize_v2 jwt_verify g2 now token) = Resolved (Some d))
            \<longleftrightarrow> signature_ok token (m2_secret g2) \<and> \<not> expired token now"
    unfolding c [symmetric] authorize_v2_cases by (auto split: sum.splits)
  show "(\<nexists>d. snd (authorize_v2 jwt_verify g2 now token) = Resolved (Some d))
            \<longrightarrow> (\<exists>err. snd (authorize_v2 jwt_verify g2 now token) = Rejected err
                       \<and> e_code err = JNum (Fin 401))"
    unfolding authorize_v2_cases by (auto split: sum.splits)
qed

lemma demo_token_encode [simp]: "demo_token (JStr (demo_encode u e k)) = Some (u, e, k)"
  by (simp add: demo_token_def demo_decode_encode)

lemma demo_token_garbage: "demo_token (JStr ''garbage'') = None"
  by (simp add: demo_token_def demo_decode_def demo_encode_def Let_def)

text \<open>
  The theorem on four requests: a token signed with the configured secret is accepted
  before its expiry; a token signed with another secret, a string that is no token, and
  the first token at its expiry are rejected with the code 401.
\<close>

theorem authorize_succeeds_iff_verified_witness:
  "(\<exists>d. snd (authorize demo_verify demo_state 0
           (token_request (JStr (demo_encode ''ann'' 300 ''k'')) JUndefined)) = Resolved (Some d))
   \<and> (\<exists>err. snd (authorize demo_verify demo_state 0
           (token_request (JStr (demo_encode ''ann'' 300 ''other'')) JUndefined)) = Rejected err
         \<and> e_code err = JNum (Fin 401))
   \<and> (\<exists>err. snd (authorize demo_verify demo_state 0
           (token_request (JStr ''garbage'') JUndefined)) = Rejected err
         \<and> e_code err = JNum (Fin 401))
   \<and> (\<exists>err. snd (authorize demo_verify demo_state 300000
           (token_request (JStr (demo_encode ''ann'' 300 ''k'')) JUndefined)) = Rejected err
         \<and> e_code err = JNum (Fin 401))"
proof -
  note inst = authorize_succeeds_iff_verified [OF demo_verifies, of demo_state]
  have ok: "\<exists>d. snd (authorize demo_verify demo_state 0
           (token_request (JStr (demo_encode ''ann'' 300 ''k'')) JUndefined)) = Resolved (Some d)"
    using inst [of 0 "token_request (JStr (demo_encode ''ann'' 300 ''k'')) JUndefined"]
    by (simp add: token_request_token demo_encode_nonempty demo_signature_ok_def
        demo_expired_def demo_state_def)
  have other: "\<exists>err. snd (authorize demo_verify demo_state 0
           (token_request (JStr (demo_encode ''ann'' 300 ''other'')) JUndefined)) = Rejected err
         \<and> e_code err = JNum (Fin 401)"
    using inst [of 0 "token_request (JStr (demo_encode ''ann'' 300 ''other'')) JUndefined"]
    by (simp add: token_request_token demo_encode_nonempty demo_signature_ok_def
        demo_expired_def demo_state_def)
  have garbage: "\<exists>err. snd (authorize demo_verify demo_state 0
           (token_request (JStr ''garbage'') JUndefined)) = Rejected err
         \<and> e_code err = JNum (Fin 401)"
    using inst [of 0 "token_request (JStr ''garbage'') JUndefined"]
    by (simp add: token_request_token demo_signature_ok_def demo_token_garbage)
  have late: "\<exists>err. snd (authorize demo_verify demo_state 300000
           (token_request (JStr (demo_encode ''ann'' 300 ''k'')) JUndefined)) = Rejected err
         \<and> e_code err = JNum (Fin 401)"
    using inst [of 300000 "token_request (JStr (demo_encode ''ann'' 300 ''k'')) JUndefined"]
    by (simp add: token_request_token demo_encode_nonempty demo_signature_ok_def
        demo_expired_def demo_state_def)
  from ok other garbage late show ?thesis by blast
qed


text \<open>
  C7, as the code has it. The query parameter is read first, but the \<^verbatim>\<open>authorization\<close>
  header, read second, overwrites it: when the header is truthy, \<^verbatim>\<open>authorize\<close> verifies
  the header, whether or not there is a query parameter; the query parameter is verified
  only when there is no truthy header.
\<close>

theorem authorize_prefers_header:
  "(truthy (header_field h_authorization req)
      \<longrightarrow> request_token req = header_field h_authorization req)
   \<and> (\<not> truthy (header_field h_authorization req) \<and> truthy (query_field q_token req)
      \<longrightarrow> request_token req = query_field q_token req)
   \<and> snd (authorize jwt_verify g now req) =
       authorize_callback (jwt_verify (request_token req) (m_secret g) now)
         (if truthy (request_token req) then Pending else Rejected no_token_error)"
  by (simp add: request_token_def authorize_result Let_def)

text \<open>
  The theorem on a request with a token for \<^verbatim>\<open>ann\<close> in the query and one for
  \<^verbatim>\<open>bob\<close> in the header, which resolves with the claims of \<^verbatim>\<open>bob\<close>, and on a
  request with the query parameter alone.
\<close>

theorem authorize_prefers_header_witness:
  "request_token (token_request (JStr (demo_encode ''ann'' 300 ''k''))
       (JStr (demo_encode ''bob'' 300 ''k'')))
     = JStr (demo_encode ''bob'' 300 ''k'')
   \<and> snd (authorize demo_verify demo_state 0
       (token_request (JStr (demo_encode ''ann'' 300 ''k''))
          (JStr (demo_encode ''bob'' 300 ''k''))))
     = Resolved (Some \<lparr>jwt_exp = 300, jwt_sub = JStr ''bob''\<rparr>)
   \<and> request_token (token_request (JStr (demo_encode ''ann'' 300 ''k'')) JUndefined)
     = JStr (demo_encode ''ann'' 300 ''k'')"
  using authorize_prefers_header
      [of "token_request (JStr (demo_encode ''ann'' 300 ''k''))
            (JStr (demo_encode ''bob'' 300 ''k''))" demo_verify demo_state 0]
    authorize_prefers_header
      [of "token_request (JStr (demo_encode ''ann'' 300 ''k'')) JUndefined"
          demo_verify demo_state 0]
  by (simp add: token_request_def header_field_def query_field_def demo_encode_nonempty
      authorize_callback_def demo_verify_def demo_state_def)

text \<open>
  C7 as the spec states it fails: a request whose query parameter is a valid token and
  whose \<^verbatim>\<open>authorization\<close> header is not one is rejected, while the same query
  parameter without the header is accepted. So the token used is the header's.
\<close>

theorem authorize_ignores_query_token:
  "request_token (token_request (JStr (demo_encode ''ann'' 300 ''k'')) (JStr ''garbage''))
     = JStr ''garbage''
   \<and> snd (authorize demo_verify demo_state 0
       (token_request (JStr (demo_encode ''ann'' 300 ''k'')) (JStr ''garbage'')))
     = Rejected (set_code_401 (demo_error ''jwt malformed''))
   \<and> snd (authorize demo_verify demo_state 0
       (token_request (JStr (demo_encode ''ann'' 300 ''k'')) JUndefined))
     = Resolved (Some \<lparr>jwt_exp = 300, jwt_sub = JStr ''ann''\<rparr>)"
  by (simp add: authorize_cases token_request_token demo_encode_nonempty demo_verify_def
      demo_token_garbage demo_state_def)

section \<open>The configuration after the calls\<close>

lemma perform_state: "fst (perform V S J c g) = g"
proof (cases c)
  case CallSpecification
  then show ?thesis
    using authenticationSpecification_state [of g] by (simp add: split_beta)
next
  case (CallAuthenticate req now)
  then show ?thesis
    using authenticate_state [of V S g now req] by (simp add: split_beta)
next
  case (CallAuthorize req now)
  then show ?thesis
    using authorize_state [of J g now req] by (simp add: split_beta)
qed

lemma run_state: "fst (run V S J cs g) = g"
proof (induction cs arbitrary: g)
  case Nil
  show ?case by simp
next
  case (Cons c cs)
  obtain g1 r where p: "perform V S J c g = (g1, r)" by (cases "perform V S J c g")
  with perform_state [of V S J c g] have g1: "g1 = g" by simp
  obtain g2 rs where q: "run V S J cs g = (g2, rs)" by (cases "run V S J cs g")
  with Cons.IH [of g] have "g2 = g" by simp
  with p g1 q show ?case by simp
qed

text \<open>
  C9. Each of \<^verbatim>\<open>authenticationSpecification\<close>, \<^verbatim>\<open>authenticate\<close> and \<^verbatim>\<open>authorize\<close>
  leaves the module's variables as it found them, whatever the request, the clock and
  the collaborators are. So after a call of \<^verbatim>\<open>auth\<close> that returned the handle, any
  sequence of calls of the three leaves the four variables as \<^verbatim>\<open>auth\<close> set them: the
  secret and the path are the arguments, the lifetime and the flag are the options or
  their defaults, and a call made after the sequence answers as it would have answered
  before it.
\<close>

theorem configuration_unchanged_by_calls:
  assumes "auth fs_stat secret path opts g0 = (g, Inr h)"
  shows "fst (authenticationSpecification g) = g
       \<and> fst (authenticate V S g now req) = g
       \<and> fst (authorize J g now req) = g
       \<and> fst (run V S J calls g) = g
       \<and> m_secret (fst (run V S J calls g)) = secret
       \<and> m_userStoreFilePath (fst (run V S J calls g)) = path
       \<and> m_tokenExpirationMinutes (fst (run V S J calls g))
           = js_or (o_tokenExpirationMinutes (options_or_default opts)) TOKEN_EXPIRATION_MINUTES
       \<and> m_useHttp (fst (run V S J calls g))
           = js_or (o_useHttp (options_or_default opts)) (JBool False)
       \<and> snd (perform V S J c (fst (run V S J calls g))) = snd (perform V S J c g)"
proof -
  from assms have "m_secret g = secret" "m_userStoreFilePath g = path"
      "m_tokenExpirationMinutes g
         = js_or (o_tokenExpirationMinutes (options_or_default opts)) TOKEN_EXPIRATION_MINUTES"
      "m_useHttp g = js_or (o_useHttp (options_or_default opts)) (JBool False)"
    by (auto simp: auth_def Let_def split: if_splits option.splits)
  then show ?thesis
    by (simp add: run_state authenticationSpecification_state authenticate_state
        authorize_state)
qed

text \<open>
  The theorem on a login, a call of \<^verbatim>\<open>authenticationSpecification\<close> and a call of
  \<^verbatim>\<open>authorize\<close>.
\<close>

theorem configuration_unchanged_by_calls_witness:
  "fst (run accept_all demo_sign demo_verify
          [CallAuthenticate login_request 0, CallSpecification,
           CallAuthorize (token_request (JStr (demo_encode ''ann'' 300 ''k'')) JUndefined) 0]
          demo_state) = demo_state
   \<and> m_secret (fst (run accept_all demo_sign demo_verify
          [CallAuthenticate login_request 0, CallSpecification,
           CallAuthorize (token_request (JStr (demo_encode ''ann'' 300 ''k'')) JUndefined) 0]
          demo_state)) = JStr ''k''
   \<and> fst (authenticate accept_all demo_sign demo_state 0 login_request) = demo_state"
  using configuration_unchanged_by_calls
    [OF auth_demo_state, of accept_all demo_sign 0 login_request demo_verify
       "[CallAuthenticate login_request 0, CallSpecification,
         CallAuthorize (token_request (JStr (demo_encode ''ann'' 300 ''k'')) JUndefined) 0]"]
  by (simp del: run.simps perform.simps add: demo_state_def)

end
